theory Spec2Isabelle
  imports Main "HOL-Library.Sublist"
begin

section \<open>Strings of the host language\<close>

text \<open>
  A string is a list of characters; a character stands for one code unit below 256.
  \<open>trim\<close> removes the white space and line terminators of that range from both ends,
  as \<^verbatim>\<open>String.prototype.trim\<close> does.
\<close>

abbreviation NL :: char where
  "NL \<equiv> CHR 0x0A"

definition isWhiteSpace :: "char \<Rightarrow> bool" where
  "isWhiteSpace c \<longleftrightarrow>
     c \<in> set [CHR 0x09, CHR 0x0A, CHR 0x0B, CHR 0x0C, CHR 0x0D, CHR 0x20, CHR 0xA0]"

definition trim :: "string \<Rightarrow> string" where
  "trim s = rev (dropWhile isWhiteSpace (rev (dropWhile isWhiteSpace s)))"

text \<open>\<^verbatim>\<open>s.split(sep)\<close> for a separator of one character: \<open>''''\<close> splits into \<open>['''']\<close>.\<close>

fun splitOn :: "char \<Rightarrow> string \<Rightarrow> string list" where
  "splitOn sep [] = ['''']"
| "splitOn sep (c # cs) =
     (if c = sep then [] # splitOn sep cs
      else (case splitOn sep cs of
              [] \<Rightarrow> [c] # []
            | l # ls \<Rightarrow> (c # l) # ls))"

text \<open>\<^verbatim>\<open>xs.join(sep)\<close>.\<close>

fun joinWith :: "string \<Rightarrow> string list \<Rightarrow> string" where
  "joinWith sep [] = []"
| "joinWith sep [x] = x"
| "joinWith sep (x # y # ys) = x @ sep @ joinWith sep (y # ys)"

text \<open>How a template literal renders a whole number: its decimal digits, with a sign.\<close>

definition digitChar :: "nat \<Rightarrow> char" where
  "digitChar d = ''0123456789'' ! d"

function decimal :: "nat \<Rightarrow> string" where
  "decimal n =
     (if 10 \<le> n then decimal (n div 10) @ [digitChar (n mod 10)] else [digitChar n])"
  by pat_completeness auto
termination
  by (relation "measure id") auto

definition numberText :: "int \<Rightarrow> string" where
  "numberText i = (if 0 \<le> i then decimal (nat i) else CHR ''-'' # decimal (nat (- i)))"

section \<open>Errors, effects and the collaborators outside the repository\<close>

text \<open>
  A thrown value is either an \<^verbatim>\<open>Error\<close> object with its message or some other value.
  Every operation returns its result together with the trace of the calls it made on the
  outside world, in order.
\<close>

datatype error = Error string | NonError

definition errorMessage :: "error \<Rightarrow> string" where
  "errorMessage e = (case e of Error m \<Rightarrow> m | NonError \<Rightarrow> ''Unknown error occurred'')"

datatype SpawnSyncReturns =
  SpawnSyncReturns (result_error: "error option") (result_status: "int option")
    (result_stdout: string) (result_stderr: string)

record ProviderSettings =
  apiProvider :: "string option"
  otherSettings :: "(string \<times> string) list"

datatype event =
    Spawn string "string list"
  | IgnoreControllerCreated string
  | IgnoreControllerDisposed string
  | ConsoleWarn string
  | ConsoleError string
  | Progress nat nat
  | Completion ProviderSettings string
  | ShowInformationMessage string
  | ShowErrorMessage string
  | ProgressReport
  | InputBoxSet string
  | ClipboardWrite string
  | Telemetry string

text \<open>
  What the version-control service calls and does not define: the process spawner (working
  directory and argument vector, the command being \<^verbatim>\<open>git\<close>), the ignore-rule evaluator
  (bound to a root, asked about a relative path; it may throw), the lock-file test and the
  two path functions of the platform. The repository is taken not to change during a run:
  equal calls give equal answers.
\<close>

record git_host =
  spawnSync :: "string \<Rightarrow> string list \<Rightarrow> SpawnSyncReturns"
  validateAccess :: "string \<Rightarrow> string \<Rightarrow> error + bool"
  shouldExcludeLockFile :: "string \<Rightarrow> bool"
  path_join :: "string \<Rightarrow> string \<Rightarrow> string"
  path_relative :: "string \<Rightarrow> string \<Rightarrow> string"

section \<open>GitExtensionService\<close>

record GitChange =
  filePath :: string
  status :: string

datatype RooIgnoreController = RooIgnoreController (controllerRoot: string)

record GitExtensionService =
  workspaceRoot :: string
  ignoreController :: "RooIgnoreController option"

text \<open>The callback \<^verbatim>\<open>onProgress\<close> receives \<^verbatim>\<open>processedFiles / files.length * 100\<close>; the
  model hands it the two counts and lets it throw.\<close>

type_synonym onProgress = "nat \<Rightarrow> nat \<Rightarrow> error option"

definition newGitExtensionService :: "string \<Rightarrow> GitExtensionService \<times> event list" where
  "newGitExtensionService root =
     (\<lparr>workspaceRoot = root, ignoreController = Some (RooIgnoreController root)\<rparr>,
      [IgnoreControllerCreated root])"

definition disposeService :: "GitExtensionService \<Rightarrow> event list" where
  "disposeService svc =
     (case ignoreController svc of
        None \<Rightarrow> []
      | Some ctl \<Rightarrow> [IgnoreControllerDisposed (controllerRoot ctl)])"

definition statusText :: "int option \<Rightarrow> string" where
  "statusText st = (case st of None \<Rightarrow> ''null'' | Some i \<Rightarrow> numberText i)"

definition spawnGitWithArgs ::
  "git_host \<Rightarrow> GitExtensionService \<Rightarrow> string list \<Rightarrow> (error + string) \<times> event list" where
  "spawnGitWithArgs h svc args =
     (let result = spawnSync h (workspaceRoot svc) args
      in ((case result_error result of
             Some e \<Rightarrow> Inl e
           | None \<Rightarrow>
               if result_status result \<noteq> Some 0
               then Inl (Error (''Git command failed with status '' @
                          statusText (result_status result) @ '': '' @ result_stderr result))
               else Inr (result_stdout result)),
          [Spawn (workspaceRoot svc) args]))"

definition getStatus ::
  "git_host \<Rightarrow> GitExtensionService \<Rightarrow> bool \<Rightarrow> (error + string) \<times> event list" where
  "getStatus h svc staged =
     spawnGitWithArgs h svc
       (if staged then [''diff'', ''--name-status'', ''--cached'']
        else [''diff'', ''--name-status''])"

definition getSummary ::
  "git_host \<Rightarrow> GitExtensionService \<Rightarrow> bool \<Rightarrow> (error + string) \<times> event list" where
  "getSummary h svc staged =
     spawnGitWithArgs h svc
       (if staged then [''diff'', ''--cached'', ''--stat''] else [''diff'', ''--stat''])"

definition getGitDiff ::
  "git_host \<Rightarrow> GitExtensionService \<Rightarrow> string \<Rightarrow> bool \<Rightarrow> (error + string) \<times> event list" where
  "getGitDiff h svc path staged =
     spawnGitWithArgs h svc
       (if staged then [''diff'', ''--cached'', ''--'', path] else [''diff'', ''--'', path])"

definition getCurrentBranch ::
  "git_host \<Rightarrow> GitExtensionService \<Rightarrow> (error + string) \<times> event list" where
  "getCurrentBranch h svc = spawnGitWithArgs h svc [''branch'', ''--show-current'']"

definition getRecentCommits ::
  "git_host \<Rightarrow> GitExtensionService \<Rightarrow> nat \<Rightarrow> (error + string) \<times> event list" where
  "getRecentCommits h svc count =
     spawnGitWithArgs h svc [''log'', ''--oneline'', ''-'' @ decimal count]"

definition getChangeStatusFromCode :: "string \<Rightarrow> string" where
  "getChangeStatusFromCode code =
     (if code = ''M'' then ''Modified''
      else if code = ''A'' then ''Added''
      else if code = ''D'' then ''Deleted''
      else if code = ''R'' then ''Renamed''
      else if code = ''C'' then ''Copied''
      else if code = ''U'' then ''Updated''
      else if code = ''?'' then ''Untracked''
      else ''Unknown'')"

text \<open>The loop of \<^verbatim>\<open>gatherChanges\<close> over the non-blank lines, \<open>changes\<close> being the list
  it pushes to.\<close>

fun parseStatusLines ::
  "git_host \<Rightarrow> GitExtensionService \<Rightarrow> string list \<Rightarrow> GitChange list \<Rightarrow> GitChange list" where
  "parseStatusLines h svc [] changes = changes"
| "parseStatusLines h svc (line # lines) changes =
     (if length line < 2 then parseStatusLines h svc lines changes
      else
        (let statusCode = trim (take 1 line);
             path = trim (drop 1 line)
         in parseStatusLines h svc lines
              (changes @
                [\<lparr>filePath = path_join h (workspaceRoot svc) path,
                  status = getChangeStatusFromCode statusCode\<rparr>])))"

definition gatherChanges ::
  "git_host \<Rightarrow> GitExtensionService \<Rightarrow> bool \<Rightarrow> (error + GitChange list) \<times> event list" where
  "gatherChanges h svc staged =
     (case getStatus h svc staged of
        (Inl e, ev) \<Rightarrow>
          (Inr [],
           ev @ [ConsoleError (''Error gathering '' @
                   (if staged then ''staged'' else ''unstaged'') @ '' changes:'')])
      | (Inr statusOutput, ev) \<Rightarrow>
          if trim statusOutput = [] then (Inr [], ev)
          else
            (Inr (parseStatusLines h svc
                    (filter (\<lambda>line. trim line \<noteq> []) (splitOn NL statusOutput)) []),
             ev))"

text \<open>Lines 94 to 106 of \<^verbatim>\<open>getDiffForChanges\<close>: the access check of one file.\<close>

definition validateFile ::
  "git_host \<Rightarrow> GitExtensionService \<Rightarrow> string \<Rightarrow> bool \<times> event list" where
  "validateFile h svc path =
     (case ignoreController svc of
        None \<Rightarrow> (True, [])
      | Some ctl \<Rightarrow>
          (case validateAccess h (controllerRoot ctl)
                  (path_relative h (workspaceRoot svc) (path_join h (workspaceRoot svc) path)) of
             Inr ok \<Rightarrow> (ok, [])
           | Inl e \<Rightarrow>
               (True,
                [ConsoleWarn (''Error validating file access for '' @ path @
                   '', allowing access:'')])))"

text \<open>Lines 113 to 117: the progress report after one file.\<close>

definition reportProgress ::
  "onProgress option \<Rightarrow> nat \<Rightarrow> nat \<Rightarrow> error option \<times> event list" where
  "reportProgress onProgress processedFiles totalFiles =
     (case onProgress of
        None \<Rightarrow> (None, [])
      | Some f \<Rightarrow>
          if totalFiles > 0 then (f processedFiles totalFiles, [Progress processedFiles totalFiles])
          else (None, []))"

text \<open>The loop over the changed files. An error of the single-file diff or of the callback
  leaves the loop; nothing inside the loop catches it.\<close>

fun processFiles ::
  "git_host \<Rightarrow> GitExtensionService \<Rightarrow> bool \<Rightarrow> onProgress option \<Rightarrow> nat \<Rightarrow>
     string list \<Rightarrow> string list \<Rightarrow> nat \<Rightarrow> (error + string list) \<times> event list" where
  "processFiles h svc staged onProgress totalFiles [] diffs processedFiles = (Inr diffs, [])"
| "processFiles h svc staged onProgress totalFiles (path # files) diffs processedFiles =
     (case validateFile h svc path of
        (isValidFile, ev1) \<Rightarrow>
          (case (if isValidFile \<and> \<not> shouldExcludeLockFile h path
                 then (case getGitDiff h svc path staged of
                         (Inl e, ev) \<Rightarrow> (Inl e, ev)
                       | (Inr diff, ev) \<Rightarrow> (Inr (diffs @ [trim diff]), ev))
                 else (Inr diffs, [])) of
             (Inl e, ev2) \<Rightarrow> (Inl e, ev1 @ ev2)
           | (Inr diffs', ev2) \<Rightarrow>
               (case reportProgress onProgress (processedFiles + 1) totalFiles of
                  (Some e, ev3) \<Rightarrow> (Inl e, ev1 @ ev2 @ ev3)
                | (None, ev3) \<Rightarrow>
                    (case processFiles h svc staged onProgress totalFiles files diffs'
                            (processedFiles + 1) of
                       (r, ev4) \<Rightarrow> (r, ev1 @ ev2 @ ev3 @ ev4)))))"

definition getDiffForChanges ::
  "git_host \<Rightarrow> GitExtensionService \<Rightarrow> bool \<Rightarrow> onProgress option \<Rightarrow>
     (error + string) \<times> event list" where
  "getDiffForChanges h svc staged onProgress =
     (let failed = ConsoleError (''Error generating '' @
                     (if staged then ''staged'' else ''unstaged'') @ '' diff:'')
      in case spawnGitWithArgs h svc
                (if staged then [''diff'', ''--name-only'', ''--cached'']
                 else [''diff'', ''--name-only'']) of
           (Inl e, ev) \<Rightarrow> (Inr [], ev @ [failed])
         | (Inr out, ev) \<Rightarrow>
             (let files = filter (\<lambda>line. length line > 0) (map trim (splitOn NL out))
              in case processFiles h svc staged onProgress (length files) files [] 0 of
                   (Inl e, ev2) \<Rightarrow> (Inr [], ev @ ev2 @ [failed])
                 | (Inr diffs, ev2) \<Rightarrow> (Inr (joinWith [NL] diffs), ev @ ev2)))"

definition diffSection :: "bool \<Rightarrow> error + string \<Rightarrow> string" where
  "diffSection staged r =
     ''### Full Diff of '' @ (if staged then ''Staged'' else ''Unstaged'') @ '' Changes'' @ [NL] @
     ''```diff'' @ [NL] @
     (case r of Inr diff \<Rightarrow> diff | Inl e \<Rightarrow> ''(No diff available)'') @ [NL] @
     ''```'' @ [NL, NL]"

definition summarySection :: "error + string \<Rightarrow> string" where
  "summarySection r =
     ''### Statistical Summary'' @ [NL] @ ''```'' @ [NL] @
     (case r of Inr summary \<Rightarrow> summary | Inl e \<Rightarrow> ''(No summary available)'') @ [NL] @
     ''```'' @ [NL, NL]"

definition branchSection :: "error + string \<Rightarrow> string" where
  "branchSection r =
     (case r of
        Inr currentBranch \<Rightarrow>
          if currentBranch \<noteq> []
          then ''**Current branch:** `'' @ trim currentBranch @ ''`'' @ [NL, NL]
          else []
      | Inl e \<Rightarrow> [])"

definition commitsSection :: "error + string \<Rightarrow> string" where
  "commitsSection r =
     (case r of
        Inr recentCommits \<Rightarrow>
          if recentCommits \<noteq> []
          then ''**Recent commits:**'' @ [NL] @ ''```'' @ [NL] @ recentCommits @ [NL] @
               ''```'' @ [NL]
          else []
      | Inl e \<Rightarrow> [])"

text \<open>The body of the outer \<^verbatim>\<open>try\<close> of \<^verbatim>\<open>getCommitContext\<close>: four guarded sections.\<close>

definition commitContextBody ::
  "git_host \<Rightarrow> GitExtensionService \<Rightarrow> GitChange list \<Rightarrow> bool \<Rightarrow> onProgress option \<Rightarrow>
     (error + string) \<times> event list" where
  "commitContextBody h svc changes staged onProgress =
     (case getDiffForChanges h svc staged onProgress of
        (r1, ev1) \<Rightarrow>
     (case getSummary h svc staged of
        (r2, ev2) \<Rightarrow>
     (case getCurrentBranch h svc of
        (r3, ev3) \<Rightarrow>
     (case getRecentCommits h svc 5 of
        (r4, ev4) \<Rightarrow>
          (Inr (''## Git Context for Commit Message Generation'' @ [NL, NL] @
                diffSection staged r1 @
                summarySection r2 @
                ''### Repository Context'' @ [NL, NL] @
                branchSection r3 @
                commitsSection r4),
           ev1 @ ev2 @ ev3 @ ev4)))))"

definition getCommitContext ::
  "git_host \<Rightarrow> GitExtensionService \<Rightarrow> GitChange list \<Rightarrow> bool \<Rightarrow> onProgress option \<Rightarrow>
     (error + string) \<times> event list" where
  "getCommitContext h svc changes staged onProgress =
     (case commitContextBody h svc changes staged onProgress of
        (Inr context, ev) \<Rightarrow> (Inr context, ev)
      | (Inl e, ev) \<Rightarrow>
          (Inr (''## Error generating commit context'' @ [NL, NL] @
                ''Unable to gather complete context for commit message generation.''),
           ev @ [ConsoleError ''Error generating commit context:'']))"

section \<open>CommitMessageProvider\<close>

record VscGenerationRequest =
  inputBox :: string
  rootUri :: "string option"

datatype GitExtension =
  GitExtension (isActive: bool) (getAPI: "error + VscGenerationRequest list")

record PromptParams =
  gitContext :: string
  customInstructions :: string

text \<open>
  What the provider calls and does not define: the completion capability, the prompt
  templates (\<^verbatim>\<open>supportPrompt.get\<close> and \<^verbatim>\<open>supportPrompt.create\<close>), the custom
  instructions loader, the settings store, the profile store, the editor's version-control
  extension and the clipboard. The user-interface calls of the editor are taken to return
  normally; the timer-driven progress animation around the completion call is left out.
\<close>

record provider_host =
  git :: git_host
  singleCompletionHandler :: "ProviderSettings \<Rightarrow> string \<Rightarrow> error + string"
  getWorkspacePath :: string
  addCustomInstructions :: "string \<Rightarrow> error + string"
  supportPrompt_get :: "(string \<rightharpoonup> string) \<Rightarrow> string \<Rightarrow> string"
  supportPrompt_create :: "string \<Rightarrow> PromptParams \<Rightarrow> (string \<rightharpoonup> string) \<Rightarrow> string"
  getProviderSettings :: ProviderSettings
  commitMessageApiConfigId :: "string option"
  listApiConfigMeta :: "string list"
  customSupportPrompts :: "string \<rightharpoonup> string"
  getProfile :: "string \<Rightarrow> error + (string \<times> ProviderSettings)"
  getExtension :: "GitExtension option"
  clipboardWriteText :: "string \<Rightarrow> error option"

record CommitMessageProvider =
  gitService :: "GitExtensionService option"
  previousGitContext :: "string option"
  previousCommitMessage :: "string option"
  targetRepository :: "VscGenerationRequest option"
  currentWorkspaceRoot :: "string option"

definition newCommitMessageProvider :: CommitMessageProvider where
  "newCommitMessageProvider =
     \<lparr>gitService = None, previousGitContext = None, previousCommitMessage = None,
      targetRepository = None, currentWorkspaceRoot = None\<rparr>"

record GenerationResult =
  message :: string
  error :: "string option"

subsection \<open>extractCommitMessage\<close>

definition isLowerAlpha :: "char \<Rightarrow> bool" where
  "isLowerAlpha c \<longleftrightarrow> (97::nat) \<le> of_char c \<and> of_char c \<le> (122::nat)"

definition isQuoteChar :: "char \<Rightarrow> bool" where
  "isQuoteChar c \<longleftrightarrow> c = CHR 0x22 \<or> c = CHR 0x27 \<or> c = CHR 0x60"

definition startsWithFence :: "string \<Rightarrow> bool" where
  "startsWithFence s \<longleftrightarrow> take 3 s = ''```''"

text \<open>
  \<^verbatim>\<open>replace(/```[a-z]*\n|```/g, "")\<close>: scanning from the left, at three backquotes the
  first alternative takes them with the longest run of lower-case letters when a newline
  follows that run, the second takes the three backquotes alone; the scan goes on after
  the match. Any other character is kept.
\<close>

function removeCodeBlockMarkers :: "string \<Rightarrow> string" where
  "removeCodeBlockMarkers [] = []"
| "removeCodeBlockMarkers (c # cs) =
     (if startsWithFence (c # cs) then
        (case dropWhile isLowerAlpha (drop 2 cs) of
           [] \<Rightarrow> removeCodeBlockMarkers (drop 2 cs)
         | n # rest \<Rightarrow>
             if n = NL then removeCodeBlockMarkers rest
             else removeCodeBlockMarkers (drop 2 cs))
      else c # removeCodeBlockMarkers cs)"
  by pat_completeness auto
termination
proof (relation "measure length")
  fix c :: char and cs n rest
  assume "dropWhile isLowerAlpha (drop 2 cs) = n # rest"
  then have "length (n # rest) \<le> length (drop 2 cs)"
    by (metis length_dropWhile_le)
  then show "(rest, c # cs) \<in> measure length" by simp
qed auto

text \<open>
  \<^verbatim>\<open>replace(/^["'`]|["'`]$/g, "")\<close>: without the multi-line flag the anchors are the two
  ends of the text, so at most the first and the last character go.
\<close>

definition stripWrappingQuotes :: "string \<Rightarrow> string" where
  "stripWrappingQuotes s =
     (let s1 = (case s of [] \<Rightarrow> [] | c # cs \<Rightarrow> if isQuoteChar c then cs else s)
      in if s1 \<noteq> [] \<and> isQuoteChar (last s1) then butlast s1 else s1)"

definition extractCommitMessage :: "string \<Rightarrow> string" where
  "extractCommitMessage response =
     (let cleaned = trim response;
          withoutCodeBlocks = removeCodeBlockMarkers cleaned;
          withoutQuotes = stripWrappingQuotes withoutCodeBlocks
      in trim withoutQuotes)"

subsection \<open>buildCommitMessagePrompt and callAIForCommitMessage\<close>

definition differentMessagePrefix :: "string \<Rightarrow> string" where
  "differentMessagePrefix previous =
     ''# CRITICAL INSTRUCTION: GENERATE A COMPLETELY DIFFERENT COMMIT MESSAGE'' @ [NL] @
     ''The user has requested a new commit message for the same changes.'' @ [NL] @
     ''The previous message was: \"'' @ previous @ ''\"'' @ [NL] @
     ''YOU MUST create a message that is COMPLETELY DIFFERENT by:'' @ [NL] @
     ''- Using entirely different wording and phrasing'' @ [NL] @
     ''- Focusing on different aspects of the changes'' @ [NL] @
     ''- Using a different structure or format if appropriate'' @ [NL] @
     ''- Possibly using a different type or scope if justifiable'' @ [NL] @
     ''This is the MOST IMPORTANT requirement for this task.'' @ [NL, NL]"

definition finalReminder :: "string \<Rightarrow> string" where
  "finalReminder previous =
     [NL, NL] @
     ''FINAL REMINDER: Your message MUST be COMPLETELY DIFFERENT from the previous message: \"'' @
     previous @ ''\". This is a critical requirement.''"

definition shouldGenerateDifferentMessage :: "CommitMessageProvider \<Rightarrow> string \<Rightarrow> bool" where
  "shouldGenerateDifferentMessage st gitContextString \<longleftrightarrow>
     previousGitContext st = Some gitContextString \<and> previousCommitMessage st \<noteq> None"

definition buildCommitMessagePrompt ::
  "provider_host \<Rightarrow> CommitMessageProvider \<Rightarrow> string \<Rightarrow> (string \<rightharpoonup> string) \<Rightarrow>
     error + string" where
  "buildCommitMessagePrompt ph st gitContextString custom =
     (case (if getWorkspacePath ph \<noteq> [] then addCustomInstructions ph (getWorkspacePath ph)
            else Inr []) of
        Inl e \<Rightarrow> Inl e
      | Inr instructions \<Rightarrow>
          (let params = \<lparr>gitContext = gitContextString, customInstructions = instructions\<rparr>
           in if shouldGenerateDifferentMessage st gitContextString then
                (let previous = (case previousCommitMessage st of
                                   Some m \<Rightarrow> m | None \<Rightarrow> ''null'');
                     baseTemplate = supportPrompt_get ph custom ''COMMIT_MESSAGE'';
                     modifiedTemplate =
                       differentMessagePrefix previous @ baseTemplate @ finalReminder previous
                 in Inr (supportPrompt_create ph ''COMMIT_MESSAGE'' params
                           (custom(''COMMIT_MESSAGE'' \<mapsto> modifiedTemplate))))
              else Inr (supportPrompt_create ph ''COMMIT_MESSAGE'' params custom)))"

text \<open>The configuration the completion is called with: the dedicated profile when its id
  is set, listed and loadable, and names a provider; the active configuration otherwise.\<close>

definition resolveConfig :: "provider_host \<Rightarrow> ProviderSettings \<times> event list" where
  "resolveConfig ph =
     (case commitMessageApiConfigId ph of
        None \<Rightarrow> (getProviderSettings ph, [])
      | Some cid \<Rightarrow>
          if cid \<noteq> [] \<and> cid \<in> set (listApiConfigMeta ph) then
            (case getProfile ph cid of
               Inr (name, providerSettings) \<Rightarrow>
                 (case apiProvider providerSettings of
                    None \<Rightarrow> (getProviderSettings ph, [])
                  | Some p \<Rightarrow>
                      if p \<noteq> [] then (providerSettings, []) else (getProviderSettings ph, []))
             | Inl e \<Rightarrow>
                 (getProviderSettings ph,
                  [ConsoleWarn (''Failed to load commit message API config '' @ cid @ '':'')]))
          else (getProviderSettings ph, []))"

definition callAIForCommitMessage ::
  "provider_host \<Rightarrow> CommitMessageProvider \<Rightarrow> string \<Rightarrow> (error + string) \<times> event list" where
  "callAIForCommitMessage ph st gitContextString =
     (case resolveConfig ph of
        (configToUse, ev) \<Rightarrow>
          (case buildCommitMessagePrompt ph st gitContextString (customSupportPrompts ph) of
             Inl e \<Rightarrow> (Inl e, ev)
           | Inr prompt \<Rightarrow>
               (case singleCompletionHandler ph configToUse prompt of
                  Inl e \<Rightarrow> (Inl e, ev @ [Completion configToUse prompt])
                | Inr response \<Rightarrow>
                    (Inr (extractCommitMessage response),
                     ev @ [Completion configToUse prompt]))))"

subsection \<open>gatherGitChanges and the two workflows\<close>

definition gatherGitChanges ::
  "git_host \<Rightarrow> CommitMessageProvider \<Rightarrow> string \<Rightarrow>
     (error + GitChange list \<times> bool) \<times> CommitMessageProvider \<times> event list" where
  "gatherGitChanges h st workspacePath =
     (case (if currentWorkspaceRoot st \<noteq> Some workspacePath then
              (case newGitExtensionService workspacePath of
                 (svc, created) \<Rightarrow>
                   (st\<lparr>gitService := Some svc, currentWorkspaceRoot := Some workspacePath\<rparr>,
                    (case gitService st of None \<Rightarrow> [] | Some old \<Rightarrow> disposeService old) @
                    created))
            else (st, [])) of
        (st1, ev0) \<Rightarrow>
          (case gitService st1 of
             None \<Rightarrow> (Inl (Error ''Failed to initialize Git service''), st1, ev0)
           | Some svc \<Rightarrow>
               (case gatherChanges h svc True of
                  (Inl e, ev1) \<Rightarrow> (Inl e, st1, ev0 @ ev1)
                | (Inr changes, ev1) \<Rightarrow>
                    if length changes = 0 then
                      (case gatherChanges h svc False of
                         (Inl e, ev2) \<Rightarrow> (Inl e, st1, ev0 @ ev1 @ ev2)
                       | (Inr changes2, ev2) \<Rightarrow> (Inr (changes2, False), st1, ev0 @ ev1 @ ev2))
                    else (Inr (changes, True), st1, ev0 @ ev1))))"

definition failure :: "error \<Rightarrow> GenerationResult" where
  "failure e = \<lparr>message = [], error = Some (errorMessage e)\<rparr>"

definition generateCommitMessageForExternal ::
  "provider_host \<Rightarrow> CommitMessageProvider \<Rightarrow> string \<Rightarrow>
     GenerationResult \<times> CommitMessageProvider \<times> event list" where
  "generateCommitMessageForExternal ph st workspacePath =
     (case gatherGitChanges (git ph) st workspacePath of
        (Inl e, st1, ev1) \<Rightarrow> (failure e, st1, ev1)
      | (Inr (changes, staged), st1, ev1) \<Rightarrow>
          if length changes = 0 then
            (\<lparr>message = [], error = Some ''No changes found to generate commit message''\<rparr>,
             st1, ev1)
          else
            (case gitService st1 of
               None \<Rightarrow> (failure (Error ''Cannot read properties of null''), st1, ev1)
             | Some svc \<Rightarrow>
                 (case getCommitContext (git ph) svc changes staged None of
                    (Inl e, ev2) \<Rightarrow> (failure e, st1, ev1 @ ev2)
                  | (Inr gitContextString, ev2) \<Rightarrow>
                      (case callAIForCommitMessage ph st1 gitContextString of
                         (Inl e, ev3) \<Rightarrow> (failure e, st1, ev1 @ ev2 @ ev3)
                       | (Inr generatedMessage, ev3) \<Rightarrow>
                           (\<lparr>message = generatedMessage, error = None\<rparr>,
                            st1\<lparr>previousGitContext := Some gitContextString,
                                previousCommitMessage := Some generatedMessage\<rparr>,
                            ev1 @ ev2 @ ev3 @ [Telemetry ''COMMIT_MSG_GENERATED''])))))"

definition determineTargetRepository ::
  "provider_host \<Rightarrow> string option \<Rightarrow> VscGenerationRequest option \<times> event list" where
  "determineTargetRepository ph resourceUri =
     (case getExtension ph of
        None \<Rightarrow> (None, [])
      | Some gitExtension \<Rightarrow>
          if \<not> isActive gitExtension then (None, [])
          else
            (case getAPI gitExtension of
               Inl e \<Rightarrow> (None, [ConsoleError ''Error determining target repository:''])
             | Inr repositories \<Rightarrow>
                 (case find (\<lambda>repo. case (rootUri repo, resourceUri) of
                                      (Some root, Some uri) \<Rightarrow> prefix root uri
                                    | _ \<Rightarrow> False) repositories of
                    Some repo \<Rightarrow> (Some repo, [])
                  | None \<Rightarrow>
                      (case repositories of [] \<Rightarrow> (None, []) | repo # _ \<Rightarrow> (Some repo, [])))))"

definition copyToClipboardFallback :: "provider_host \<Rightarrow> string \<Rightarrow> error option \<times> event list" where
  "copyToClipboardFallback ph msg =
     (case clipboardWriteText ph msg of
        Some e \<Rightarrow>
          (Some (Error ''Failed to set commit message''),
           [ClipboardWrite msg, ConsoleError ''Error copying to clipboard:''])
      | None \<Rightarrow>
          (None,
           [ClipboardWrite msg,
            ShowInformationMessage
              ''Commit message copied to clipboard. Paste it into the commit message field.'']))"

definition setCommitMessage ::
  "provider_host \<Rightarrow> CommitMessageProvider \<Rightarrow> string \<Rightarrow>
     error option \<times> CommitMessageProvider \<times> event list" where
  "setCommitMessage ph st msg =
     (case targetRepository st of
        Some repo \<Rightarrow>
          (None, st\<lparr>targetRepository := Some (repo\<lparr>inputBox := msg\<rparr>)\<rparr>, [InputBoxSet msg])
      | None \<Rightarrow>
          (case copyToClipboardFallback ph msg of (r, ev) \<Rightarrow> (r, st, ev)))"

text \<open>The body of the \<^verbatim>\<open>try\<close> inside \<^verbatim>\<open>generateCommitMessageVsCode\<close>. The callback
  handed to \<^verbatim>\<open>getCommitContext\<close> only reports to the progress bar and returns.\<close>

definition generateVsCodeBody ::
  "provider_host \<Rightarrow> CommitMessageProvider \<Rightarrow> string \<Rightarrow>
     error option \<times> CommitMessageProvider \<times> event list" where
  "generateVsCodeBody ph st workspacePath =
     (case gatherGitChanges (git ph) st workspacePath of
        (Inl e, st1, ev1) \<Rightarrow> (Some e, st1, ev1)
      | (Inr (changes, staged), st1, ev1) \<Rightarrow>
          if length changes = 0 then
            (None, st1, ev1 @ [ShowInformationMessage ''kilocode:commitMessage.noChanges''])
          else
            (let ev1' = ev1 @
                   (if \<not> staged \<and> length changes > 0
                    then [ShowInformationMessage ''kilocode:commitMessage.generatingFromUnstaged'']
                    else []) @ [ProgressReport]
             in case gitService st1 of
                  None \<Rightarrow> (Some (Error ''Cannot read properties of null''), st1, ev1')
                | Some svc \<Rightarrow>
                    (case getCommitContext (git ph) svc changes staged (Some (\<lambda>p n. None)) of
                       (Inl e, ev2) \<Rightarrow> (Some e, st1, ev1' @ ev2)
                     | (Inr gitContextString, ev2) \<Rightarrow>
                         (case callAIForCommitMessage ph st1 gitContextString of
                            (Inl e, ev3) \<Rightarrow> (Some e, st1, ev1' @ ev2 @ ev3)
                          | (Inr generatedMessage, ev3) \<Rightarrow>
                              (case setCommitMessage ph
                                      (st1\<lparr>previousGitContext := Some gitContextString,
                                           previousCommitMessage := Some generatedMessage\<rparr>)
                                      generatedMessage of
                                 (Some e, st2, ev4) \<Rightarrow> (Some e, st2, ev1' @ ev2 @ ev3 @ ev4)
                               | (None, st2, ev4) \<Rightarrow>
                                   (None, st2,
                                    ev1' @ ev2 @ ev3 @ ev4 @
                                    [Telemetry ''COMMIT_MSG_GENERATED'']))))))"

definition generateCommitMessageVsCode ::
  "provider_host \<Rightarrow> CommitMessageProvider \<Rightarrow> VscGenerationRequest option \<Rightarrow>
     error option \<times> CommitMessageProvider \<times> event list" where
  "generateCommitMessageVsCode ph st vsRequest =
     (case determineTargetRepository ph
             (case vsRequest of None \<Rightarrow> None | Some r \<Rightarrow> rootUri r) of
        (target, ev0) \<Rightarrow>
          (case (case target of
                   None \<Rightarrow> None
                 | Some repo \<Rightarrow>
                     (case rootUri repo of None \<Rightarrow> None | Some root \<Rightarrow> Some (repo, root))) of
             None \<Rightarrow> (Some (Error ''Could not determine Git repository''), st, ev0)
           | Some (repo, root) \<Rightarrow>
               (case generateVsCodeBody ph (st\<lparr>targetRepository := Some repo\<rparr>) root of
                  (None, st1, ev) \<Rightarrow> (None, st1, ev0 @ ev)
                | (Some e, st1, ev) \<Rightarrow>
                    (None, st1,
                     ev0 @ ev @
                     [ShowErrorMessage
                        (''kilocode:commitMessage.generationFailed '' @ errorMessage e),
                      ConsoleError ''Error generating commit message:'']))))"

definition dispose :: "CommitMessageProvider \<Rightarrow> CommitMessageProvider \<times> event list" where
  "dispose st =
     (st\<lparr>gitService := None\<rparr>,
      (case gitService st of None \<Rightarrow> [] | Some svc \<Rightarrow> disposeService svc))"

subsection \<open>Sequences of requests\<close>

datatype request =
    ForExternal string
  | VsCode "VscGenerationRequest option"
  | Dispose

fun handle :: "provider_host \<Rightarrow> request \<Rightarrow> CommitMessageProvider \<Rightarrow> CommitMessageProvider" where
  "handle ph (ForExternal workspacePath) st =
     fst (snd (generateCommitMessageForExternal ph st workspacePath))"
| "handle ph (VsCode vsRequest) st = fst (snd (generateCommitMessageVsCode ph st vsRequest))"
| "handle ph Dispose st = fst (dispose st)"

fun handleAll ::
  "provider_host \<Rightarrow> request list \<Rightarrow> CommitMessageProvider \<Rightarrow> CommitMessageProvider" where
  "handleAll ph [] st = st"
| "handleAll ph (r # rs) st = handleAll ph rs (handle ph r st)"

section \<open>Observations on traces and states\<close>

text \<open>The argument vectors of the processes spawned, in order.\<close>

fun spawnArgs :: "event list \<Rightarrow> string list list" where
  "spawnArgs [] = []"
| "spawnArgs (Spawn cwd args # evs) = args # spawnArgs evs"
| "spawnArgs (e # evs) = spawnArgs evs"


text \<open>The trace holds a call of the completion capability that returned a response.\<close>

definition completionReturned :: "provider_host \<Rightarrow> event list \<Rightarrow> bool" where
  "completionReturned ph evs =
     list_ex (\<lambda>e. case e of
                    Completion config prompt \<Rightarrow>
                      (case singleCompletionHandler ph config prompt of
                         Inr response \<Rightarrow> True
                       | Inl err \<Rightarrow> False)
                  | _ \<Rightarrow> False) evs"

definition previousRun :: "CommitMessageProvider \<Rightarrow> string option \<times> string option" where
  "previousRun st = (previousGitContext st, previousCommitMessage st)"

text \<open>The service held, if any, is the one made for the current root.\<close>

definition boundToRoot :: "CommitMessageProvider \<Rightarrow> bool" where
  "boundToRoot st =
     (case gitService st of
        None \<Rightarrow> True
      | Some svc \<Rightarrow>
          currentWorkspaceRoot st = Some (workspaceRoot svc) \<and>
          ignoreController svc = Some (RooIgnoreController (workspaceRoot svc)))"

text \<open>The evaluator with every exception replaced by the answer "allowed".\<close>

definition allowOnError :: "git_host \<Rightarrow> git_host" where
  "allowOnError h =
     h\<lparr>validateAccess :=
         (\<lambda>root path. case validateAccess h root path of
                         Inl e \<Rightarrow> Inr True
                       | Inr ok \<Rightarrow> Inr ok)\<rparr>"

text \<open>The list of changed files that \<^verbatim>\<open>getDiffForChanges\<close> reads off the names-only output.\<close>

definition changedFiles :: "string \<Rightarrow> string list" where
  "changedFiles out = filter (\<lambda>line. length line > 0) (map trim (splitOn NL out))"

definition nameOnlyArgs :: "bool \<Rightarrow> string list" where
  "nameOnlyArgs staged =
     (if staged then [''diff'', ''--name-only'', ''--cached''] else [''diff'', ''--name-only''])"





section \<open>A repository and a host to run the model on\<close>

definition succeeded :: "string \<Rightarrow> SpawnSyncReturns" where
  "succeeded out = SpawnSyncReturns None (Some 0) out []"

definition exited :: "int \<Rightarrow> string \<Rightarrow> SpawnSyncReturns" where
  "exited code err = SpawnSyncReturns None (Some code) [] err"

text \<open>Two staged files; the evaluator throws on the first; nothing is a lock file.\<close>

definition exampleGit :: git_host where
  "exampleGit =
     \<lparr>spawnSync = (\<lambda>cwd args.
         if args = [''diff'', ''--name-status'', ''--cached'']
           then succeeded (''M file1.ts'' @ [NL] @ ''A file2.ts'' @ [NL])
         else if args = [''diff'', ''--name-only'', ''--cached'']
           then succeeded (''file1.ts'' @ [NL] @ ''file2.ts'' @ [NL])
         else if args = [''diff'', ''--cached'', ''--'', ''file1.ts'']
           then succeeded (''+one'' @ [NL])
         else if args = [''diff'', ''--cached'', ''--'', ''file2.ts'']
           then succeeded (''+two'' @ [NL])
         else if args = [''diff'', ''--cached'', ''--stat'']
           then succeeded ''2 files changed''
         else if args = [''branch'', ''--show-current'']
           then succeeded (''main'' @ [NL])
         else if args = [''log'', ''--oneline'', ''-5'']
           then succeeded ''abc1234 first''
         else exited 1 ''fatal''),
      validateAccess = (\<lambda>root path.
         if path = ''file1.ts'' then Inl (Error ''cannot read ignore file'') else Inr True),
      shouldExcludeLockFile = (\<lambda>path. False),
      path_join = (\<lambda>a b. a @ ''/'' @ b),
      path_relative = (\<lambda>a b. drop (length a + 1) b)\<rparr>"




definition exampleService :: GitExtensionService where
  "exampleService = fst (newGitExtensionService ''/repo'')"

definition exampleHost :: provider_host where
  "exampleHost =
     \<lparr>git = exampleGit,
      singleCompletionHandler = (\<lambda>config prompt. Inr ''feat: add two files''),
      getWorkspacePath = ''/repo'',
      addCustomInstructions = (\<lambda>path. Inr []),
      supportPrompt_get = (\<lambda>custom type.
         case custom type of Some t \<Rightarrow> t | None \<Rightarrow> ''Write a commit message.''),
      supportPrompt_create = (\<lambda>type params custom.
         (case custom type of Some t \<Rightarrow> t | None \<Rightarrow> ''Write a commit message.'')),
      getProviderSettings = \<lparr>apiProvider = Some ''kilocode'', otherSettings = []\<rparr>,
      commitMessageApiConfigId = None,
      listApiConfigMeta = [],
      customSupportPrompts = Map.empty,
      getProfile = (\<lambda>cid. Inl (Error ''no such profile'')),
      getExtension = None,
      clipboardWriteText = (\<lambda>text. None)\<rparr>"



text \<open>A provider that has completed one run on the example repository.\<close>

definition afterFirstRun :: CommitMessageProvider where
  "afterFirstRun = fst (snd (generateCommitMessageForExternal exampleHost newCommitMessageProvider ''/repo''))"



section \<open>Properties of the string functions\<close>
















section \<open>Properties of the version-control service\<close>

lemma parseStatusLines_eq:
  "parseStatusLines h svc lines changes =
     changes @
     map (\<lambda>line. \<lparr>filePath = path_join h (workspaceRoot svc) (trim (drop 1 line)),
                    status = getChangeStatusFromCode (trim (take 1 line))\<rparr>)
         (filter (\<lambda>line. 2 \<le> length line) lines)"
  by (induction lines arbitrary: changes) (simp_all add: Let_def not_less)


lemma fst_processFiles_Cons:
  "fst (processFiles h svc staged onProgress n (path # files) diffs k) =
     (if fst (validateFile h svc path) \<and> \<not> shouldExcludeLockFile h path then
        (case fst (getGitDiff h svc path staged) of
           Inl e \<Rightarrow> Inl e
         | Inr diff \<Rightarrow>
             (case fst (reportProgress onProgress (k + 1) n) of
                Some e \<Rightarrow> Inl e
              | None \<Rightarrow>
                  fst (processFiles h svc staged onProgress n files (diffs @ [trim diff]) (k + 1))))
      else
        (case fst (reportProgress onProgress (k + 1) n) of
           Some e \<Rightarrow> Inl e
         | None \<Rightarrow> fst (processFiles h svc staged onProgress n files diffs (k + 1))))"
  by (simp split: prod.splits sum.splits option.splits)


lemma getGitDiff_allowOnError [simp]:
  "getGitDiff (allowOnError h) svc path staged = getGitDiff h svc path staged"
  by (simp add: getGitDiff_def spawnGitWithArgs_def allowOnError_def)

lemma spawnGitWithArgs_allowOnError [simp]:
  "spawnGitWithArgs (allowOnError h) svc args = spawnGitWithArgs h svc args"
  by (simp add: spawnGitWithArgs_def allowOnError_def)

lemma validateFile_allowOnError [simp]:
  "fst (validateFile (allowOnError h) svc path) = fst (validateFile h svc path)"
  by (simp add: validateFile_def allowOnError_def split: option.splits sum.splits)

lemma shouldExcludeLockFile_allowOnError [simp]:
  "shouldExcludeLockFile (allowOnError h) = shouldExcludeLockFile h"
  by (simp add: allowOnError_def)

lemma processFiles_allowOnError:
  "fst (processFiles (allowOnError h) svc staged onProgress n files diffs k) =
   fst (processFiles h svc staged onProgress n files diffs k)"
proof (induction files arbitrary: diffs k)
  case Nil
  then show ?case by simp
next
  case (Cons p files)
  show ?case
    by (simp add: fst_processFiles_Cons Cons.IH del: processFiles.simps
             split: sum.splits option.splits)
qed

lemma fst_getDiffForChanges:
  "fst (getDiffForChanges h svc staged onProgress) =
     Inr (case fst (spawnGitWithArgs h svc (nameOnlyArgs staged)) of
            Inl e \<Rightarrow> []
          | Inr out \<Rightarrow>
              (case fst (processFiles h svc staged onProgress (length (changedFiles out))
                           (changedFiles out) [] 0) of
                 Inl e \<Rightarrow> []
               | Inr diffs \<Rightarrow> joinWith [NL] diffs))"
  by (simp add: getDiffForChanges_def nameOnlyArgs_def changedFiles_def Let_def
           split: prod.splits sum.splits)

lemma fst_getCommitContext:
  "fst (getCommitContext h svc changes staged onProgress) =
     Inr (''## Git Context for Commit Message Generation'' @ [NL, NL] @
          diffSection staged (fst (getDiffForChanges h svc staged onProgress)) @
          summarySection (fst (getSummary h svc staged)) @
          ''### Repository Context'' @ [NL, NL] @
          branchSection (fst (getCurrentBranch h svc)) @
          commitsSection (fst (getRecentCommits h svc 5)))"
  by (simp add: getCommitContext_def commitContextBody_def split: prod.splits)



section \<open>Properties of the provider\<close>

lemma spawnArgs_append [simp]: "spawnArgs (xs @ ys) = spawnArgs xs @ spawnArgs ys"
  by (induction xs rule: spawnArgs.induct) simp_all

lemma gatherChanges_Inr: "\<exists>changes. fst (gatherChanges h svc staged) = Inr changes"
  by (cases "getStatus h svc staged") (auto simp: gatherChanges_def split: sum.splits)


lemma disposeService_spawns [simp]: "spawnArgs (disposeService svc) = []"
  by (simp add: disposeService_def split: option.splits)

text \<open>The state after the root check of gatherGitChanges.\<close>

lemma gatherGitChanges_state:
  "fst (snd (gatherGitChanges h st p)) =
     (if currentWorkspaceRoot st \<noteq> Some p
      then st\<lparr>gitService := Some (fst (newGitExtensionService p)),
              currentWorkspaceRoot := Some p\<rparr>
      else st)"
  by (simp add: gatherGitChanges_def newGitExtensionService_def
           split: prod.splits sum.splits option.splits)

lemma gatherGitChanges_bound:
  assumes "gitService (fst (snd (gatherGitChanges h st p))) = Some svc"
  shows "gatherGitChanges h st p =
     (let ev0 = (if currentWorkspaceRoot st \<noteq> Some p
                 then (case gitService st of None \<Rightarrow> [] | Some old \<Rightarrow> disposeService old) @
                      [IgnoreControllerCreated p]
                 else []);
          r1 = gatherChanges h svc True;
          r2 = gatherChanges h svc False
      in case fst r1 of
           Inl e \<Rightarrow> (Inl e, fst (snd (gatherGitChanges h st p)), ev0 @ snd r1)
         | Inr changes \<Rightarrow>
             if changes = [] then
               (case fst r2 of
                  Inl e \<Rightarrow> (Inl e, fst (snd (gatherGitChanges h st p)), ev0 @ snd r1 @ snd r2)
                | Inr changes2 \<Rightarrow>
                    (Inr (changes2, False), fst (snd (gatherGitChanges h st p)),
                     ev0 @ snd r1 @ snd r2))
             else (Inr (changes, True), fst (snd (gatherGitChanges h st p)), ev0 @ snd r1))"
proof -
  obtain a1 b1 where g1: "gatherChanges h svc True = (a1, b1)" by (cases "gatherChanges h svc True")
  obtain a2 b2 where g2: "gatherChanges h svc False = (a2, b2)" by (cases "gatherChanges h svc False")
  show ?thesis
  proof (cases "currentWorkspaceRoot st \<noteq> Some p")
    case True
    with assms have s: "\<lparr>workspaceRoot = p, ignoreController = Some (RooIgnoreController p)\<rparr> = svc"
      by (simp add: gatherGitChanges_state newGitExtensionService_def)
    show ?thesis
      using True
      by (cases a1; cases a2)
         (simp_all add: gatherGitChanges_def s newGitExtensionService_def Let_def g1 g2)
  next
    case False
    with assms have s: "gitService st = Some svc"
      by (simp add: gatherGitChanges_state)
    show ?thesis
      using False
      by (cases a1; cases a2) (simp_all add: gatherGitChanges_def s Let_def g1 g2)
  qed
qed

lemma boundToRoot_cong:
  "gitService a = gitService b \<Longrightarrow> currentWorkspaceRoot a = currentWorkspaceRoot b \<Longrightarrow>
   boundToRoot a = boundToRoot b"
  by (simp add: boundToRoot_def split: option.splits)

lemma gatherGitChanges_boundToRoot:
  "boundToRoot st \<Longrightarrow> boundToRoot (fst (snd (gatherGitChanges h st p)))"
  by (simp add: gatherGitChanges_state boundToRoot_def newGitExtensionService_def)


lemma setCommitMessage_fields:
  "gitService (fst (snd (setCommitMessage ph st m))) = gitService st \<and>
   currentWorkspaceRoot (fst (snd (setCommitMessage ph st m))) = currentWorkspaceRoot st \<and>
   previousRun (fst (snd (setCommitMessage ph st m))) = previousRun st"
  by (simp add: setCommitMessage_def previousRun_def split: option.splits prod.splits)

lemma completionReturned_append [simp]:
  "completionReturned ph (xs @ ys) \<longleftrightarrow> completionReturned ph xs \<or> completionReturned ph ys"
  by (simp add: completionReturned_def)

lemma completionReturned_Cons:
  "completionReturned ph (e # evs) \<longleftrightarrow>
     (case e of
        Completion config prompt \<Rightarrow>
          (case singleCompletionHandler ph config prompt of
             Inr response \<Rightarrow> True
           | Inl err \<Rightarrow> False)
      | _ \<Rightarrow> False) \<or> completionReturned ph evs"
  by (simp add: completionReturned_def)

lemma callAI_completionReturned:
  assumes "callAIForCommitMessage ph st ctx = (Inr msg, ev)"
  shows "completionReturned ph ev"
proof -
  obtain cfg ev0 where rc: "resolveConfig ph = (cfg, ev0)" by (cases "resolveConfig ph")
  show ?thesis
  proof (cases "buildCommitMessagePrompt ph st ctx (customSupportPrompts ph)")
    case (Inl e)
    with assms rc show ?thesis by (simp add: callAIForCommitMessage_def)
  next
    case (Inr prompt)
    show ?thesis
    proof (cases "singleCompletionHandler ph cfg prompt")
      case (Inl e)
      with assms rc Inr show ?thesis by (simp add: callAIForCommitMessage_def)
    next
      case r: (Inr response)
      with assms rc Inr have "ev = ev0 @ [Completion cfg prompt]"
        by (simp add: callAIForCommitMessage_def)
      then show ?thesis using r by (simp add: completionReturned_def)
    qed
  qed
qed

text \<open>What the programmatic workflow does to the state: the root check, and on success
  the two fields of the previous run.\<close>

lemma external_state:
  "(fst (snd (generateCommitMessageForExternal ph st p)) =
      fst (snd (gatherGitChanges (git ph) st p)) \<and>
    error (fst (generateCommitMessageForExternal ph st p)) \<noteq> None) \<or>
   (\<exists>ctx.
      completionReturned ph (snd (snd (generateCommitMessageForExternal ph st p))) \<and>
      error (fst (generateCommitMessageForExternal ph st p)) = None \<and>
      fst (snd (generateCommitMessageForExternal ph st p)) =
        (fst (snd (gatherGitChanges (git ph) st p)))
          \<lparr>previousGitContext := Some ctx,
           previousCommitMessage :=
             Some (message (fst (generateCommitMessageForExternal ph st p)))\<rparr>)"
proof -
  obtain r st1 ev1 where g: "gatherGitChanges (git ph) st p = (r, st1, ev1)"
    by (cases "gatherGitChanges (git ph) st p")
  note d = generateCommitMessageForExternal_def
  show ?thesis
  proof (cases r)
    case (Inl e)
    then show ?thesis by (simp add: d g failure_def)
  next
    case (Inr cs)
    obtain changes staged where cs: "cs = (changes, staged)" by (cases cs)
    show ?thesis
    proof (cases "changes = []")
      case True
      then show ?thesis by (simp add: d g Inr cs)
    next
      case ne: False
      show ?thesis
      proof (cases "gitService st1")
        case None
        then show ?thesis by (simp add: d g Inr cs ne failure_def)
      next
        case (Some svc)
        obtain r2 ev2 where c2: "getCommitContext (git ph) svc changes staged None = (r2, ev2)"
          by (cases "getCommitContext (git ph) svc changes staged None")
        show ?thesis
        proof (cases r2)
          case (Inl e)
          then show ?thesis by (simp add: d g Inr cs ne Some c2 failure_def)
        next
          case ctx: (Inr ctx)
          obtain r3 ev3 where c3: "callAIForCommitMessage ph st1 ctx = (r3, ev3)"
            by (cases "callAIForCommitMessage ph st1 ctx")
          show ?thesis
          proof (cases r3)
            case (Inl e)
            then show ?thesis by (simp add: d g Inr cs ne Some c2 ctx c3 failure_def)
          next
            case msg: (Inr msg)
            have cr: "completionReturned ph ev3"
              using c3 msg callAI_completionReturned by blast
            have res: "generateCommitMessageForExternal ph st p =
                (\<lparr>message = msg, error = None\<rparr>,
                 st1\<lparr>previousGitContext := Some ctx, previousCommitMessage := Some msg\<rparr>,
                 ev1 @ ev2 @ ev3 @ [Telemetry ''COMMIT_MSG_GENERATED''])"
              by (simp add: d g Inr cs ne Some c2 ctx c3 msg)
            show ?thesis
              by (rule disjI2, rule exI[of _ ctx]) (simp add: res g cr)
          qed
        qed
      qed
    qed
  qed
qed

lemma vsCodeBody_state:
  "fst (snd (generateVsCodeBody ph st p)) = fst (snd (gatherGitChanges (git ph) st p)) \<or>
   (\<exists>ctx msg.
      completionReturned ph (snd (snd (generateVsCodeBody ph st p))) \<and>
      fst (snd (generateVsCodeBody ph st p)) =
        fst (snd (setCommitMessage ph
          ((fst (snd (gatherGitChanges (git ph) st p)))
             \<lparr>previousGitContext := Some ctx, previousCommitMessage := Some msg\<rparr>) msg)))"
proof -
  obtain r st1 ev1 where g: "gatherGitChanges (git ph) st p = (r, st1, ev1)"
    by (cases "gatherGitChanges (git ph) st p")
  note d = generateVsCodeBody_def
  show ?thesis
  proof (cases r)
    case (Inl e)
    then show ?thesis by (simp add: d g)
  next
    case (Inr cs)
    obtain changes staged where cs: "cs = (changes, staged)" by (cases cs)
    show ?thesis
    proof (cases "changes = []")
      case True
      then show ?thesis by (simp add: d g Inr cs)
    next
      case ne: False
      show ?thesis
      proof (cases "gitService st1")
        case None
        then show ?thesis by (simp add: d g Inr cs ne Let_def)
      next
        case (Some svc)
        obtain r2 ev2 where
          c2: "getCommitContext (git ph) svc changes staged (Some (\<lambda>p n. None)) = (r2, ev2)"
          by (cases "getCommitContext (git ph) svc changes staged (Some (\<lambda>p n. None))")
        show ?thesis
        proof (cases r2)
          case (Inl e)
          then show ?thesis by (simp add: d g Inr cs ne Some c2 Let_def)
        next
          case ctx: (Inr ctx)
          obtain r3 ev3 where c3: "callAIForCommitMessage ph st1 ctx = (r3, ev3)"
            by (cases "callAIForCommitMessage ph st1 ctx")
          show ?thesis
          proof (cases r3)
            case (Inl e)
            then show ?thesis by (simp add: d g Inr cs ne Some c2 ctx c3 Let_def)
          next
            case msg: (Inr msg)
            have cr: "completionReturned ph ev3"
              using c3 msg callAI_completionReturned by blast
            let ?st = "st1\<lparr>previousGitContext := Some ctx, previousCommitMessage := Some msg\<rparr>"
            obtain r4 st2 ev4 where c4: "setCommitMessage ph ?st msg = (r4, st2, ev4)"
              by (cases "setCommitMessage ph ?st msg")
            have res: "fst (snd (generateVsCodeBody ph st p)) = st2 \<and>
                       completionReturned ph (snd (snd (generateVsCodeBody ph st p)))"
              by (cases r4) (simp_all add: d g Inr cs ne Some c2 ctx c3 msg c4 cr Let_def completionReturned_Cons)
            show ?thesis
              by (rule disjI2, rule exI[of _ ctx], rule exI[of _ msg]) (simp add: res g c4)
          qed
        qed
      qed
    qed
  qed
qed

lemma vsCode_state:
  "fst (snd (generateCommitMessageVsCode ph st req)) = st \<or>
   (\<exists>repo root ev0 tail.
      fst (snd (generateCommitMessageVsCode ph st req)) =
        fst (snd (generateVsCodeBody ph (st\<lparr>targetRepository := Some repo\<rparr>) root)) \<and>
      snd (snd (generateCommitMessageVsCode ph st req)) =
        ev0 @ snd (snd (generateVsCodeBody ph (st\<lparr>targetRepository := Some repo\<rparr>) root)) @ tail)"
proof -
  let ?uri = "case req of None \<Rightarrow> None | Some r \<Rightarrow> rootUri r"
  obtain target ev0 where t: "determineTargetRepository ph ?uri = (target, ev0)"
    by (cases "determineTargetRepository ph ?uri")
  note d = generateCommitMessageVsCode_def
  show ?thesis
  proof (cases target)
    case None
    then show ?thesis by (simp add: d t)
  next
    case (Some repo)
    show ?thesis
    proof (cases "rootUri repo")
      case None
      then show ?thesis by (simp add: d t Some)
    next
      case root: (Some root)
      let ?b = "generateVsCodeBody ph (st\<lparr>targetRepository := Some repo\<rparr>) root"
      obtain r st1 ev where b: "?b = (r, st1, ev)" by (cases ?b)
      show ?thesis
      proof (cases r)
        case None
        have "generateCommitMessageVsCode ph st req = (None, st1, ev0 @ ev @ [])"
          by (simp add: d t Some root b None)
        then show ?thesis
          by (intro disjI2 exI[of _ repo] exI[of _ root] exI[of _ ev0] exI[of _ "[]"])
             (simp add: b)
      next
        case e: (Some e)
        have "generateCommitMessageVsCode ph st req =
                (None, st1,
                 ev0 @ ev @
                 [ShowErrorMessage (''kilocode:commitMessage.generationFailed '' @ errorMessage e),
                  ConsoleError ''Error generating commit message:''])"
          by (simp add: d t Some root b e)
        then show ?thesis
          by (intro disjI2 exI[of _ repo] exI[of _ root] exI[of _ ev0]
                exI[of _ "[ShowErrorMessage (''kilocode:commitMessage.generationFailed '' @ errorMessage e),
                  ConsoleError ''Error generating commit message:'']"])
             (simp add: b)
      qed
    qed
  qed
qed

lemma targetRepository_update_boundToRoot [simp]:
  "boundToRoot (st\<lparr>targetRepository := x\<rparr>) = boundToRoot st"
  by (rule boundToRoot_cong) simp_all

lemma targetRepository_update_previousRun [simp]:
  "previousRun (st\<lparr>targetRepository := x\<rparr>) = previousRun st"
  by (simp add: previousRun_def)

lemma previous_update_boundToRoot [simp]:
  "boundToRoot (st\<lparr>previousGitContext := x, previousCommitMessage := y\<rparr>) = boundToRoot st"
  by (rule boundToRoot_cong) simp_all

lemma vsCodeBody_boundToRoot:
  assumes "boundToRoot st"
  shows "boundToRoot (fst (snd (generateVsCodeBody ph st p)))"
proof -
  let ?g = "fst (snd (gatherGitChanges (git ph) st p))"
  have g: "boundToRoot ?g" using assms by (rule gatherGitChanges_boundToRoot)
  from vsCodeBody_state[of ph st p] show ?thesis
  proof
    assume "fst (snd (generateVsCodeBody ph st p)) = ?g"
    with g show ?thesis by simp
  next
    assume "\<exists>ctx msg.
      completionReturned ph (snd (snd (generateVsCodeBody ph st p))) \<and>
      fst (snd (generateVsCodeBody ph st p)) =
        fst (snd (setCommitMessage ph
          (?g\<lparr>previousGitContext := Some ctx, previousCommitMessage := Some msg\<rparr>) msg))"
    then obtain ctx msg where
      e: "fst (snd (generateVsCodeBody ph st p)) =
        fst (snd (setCommitMessage ph
          (?g\<lparr>previousGitContext := Some ctx, previousCommitMessage := Some msg\<rparr>) msg))"
      by blast
    let ?s = "?g\<lparr>previousGitContext := Some ctx, previousCommitMessage := Some msg\<rparr>"
    have "boundToRoot (fst (snd (setCommitMessage ph ?s msg))) = boundToRoot ?s"
      by (rule boundToRoot_cong) (simp_all add: setCommitMessage_fields)
    with g e show ?thesis by simp
  qed
qed

lemma handle_boundToRoot:
  assumes "boundToRoot st"
  shows "boundToRoot (handle ph r st)"
proof (cases r)
  case (ForExternal p)
  let ?g = "fst (snd (gatherGitChanges (git ph) st p))"
  have g: "boundToRoot ?g" using assms by (rule gatherGitChanges_boundToRoot)
  from external_state[of ph st p] have "boundToRoot (fst (snd (generateCommitMessageForExternal ph st p)))"
  proof
    assume "fst (snd (generateCommitMessageForExternal ph st p)) = ?g \<and>
            error (fst (generateCommitMessageForExternal ph st p)) \<noteq> None"
    with g show ?thesis by simp
  next
    assume "\<exists>ctx.
      completionReturned ph (snd (snd (generateCommitMessageForExternal ph st p))) \<and>
      error (fst (generateCommitMessageForExternal ph st p)) = None \<and>
      fst (snd (generateCommitMessageForExternal ph st p)) =
        ?g\<lparr>previousGitContext := Some ctx,
           previousCommitMessage :=
             Some (message (fst (generateCommitMessageForExternal ph st p)))\<rparr>"
    then obtain ctx where "fst (snd (generateCommitMessageForExternal ph st p)) =
        ?g\<lparr>previousGitContext := Some ctx,
           previousCommitMessage :=
             Some (message (fst (generateCommitMessageForExternal ph st p)))\<rparr>" by blast
    then show ?thesis using g by (simp only: previous_update_boundToRoot)
  qed
  with ForExternal show ?thesis by simp
next
  case (VsCode req)
  from vsCode_state[of ph st req]
  have "boundToRoot (fst (snd (generateCommitMessageVsCode ph st req)))"
  proof
    assume "fst (snd (generateCommitMessageVsCode ph st req)) = st"
    with assms show ?thesis by simp
  next
    assume "\<exists>repo root ev0 tail.
      fst (snd (generateCommitMessageVsCode ph st req)) =
        fst (snd (generateVsCodeBody ph (st\<lparr>targetRepository := Some repo\<rparr>) root)) \<and>
      snd (snd (generateCommitMessageVsCode ph st req)) =
        ev0 @ snd (snd (generateVsCodeBody ph (st\<lparr>targetRepository := Some repo\<rparr>) root)) @ tail"
    then obtain repo root where
      "fst (snd (generateCommitMessageVsCode ph st req)) =
        fst (snd (generateVsCodeBody ph (st\<lparr>targetRepository := Some repo\<rparr>) root))" by blast
    moreover have "boundToRoot (st\<lparr>targetRepository := Some repo\<rparr>)" using assms by simp
    ultimately show ?thesis using vsCodeBody_boundToRoot by simp
  qed
  with VsCode show ?thesis by simp
next
  case Dispose
  then show ?thesis by (simp add: dispose_def boundToRoot_def)
qed

lemma handleAll_boundToRoot:
  "boundToRoot st \<Longrightarrow> boundToRoot (handleAll ph requests st)"
  by (induction requests arbitrary: st) (simp_all add: handle_boundToRoot)




section \<open>The claims\<close>

subsection \<open>Message post-processing\<close>







subsection \<open>Gathering changes\<close>

text \<open>
  C4. \<open>gatherChanges\<close> never raises. When the status command succeeds with a non-blank
  output, every non-blank line of at least two characters gives exactly one change, in
  order: its status is the trimmed first character looked up in the fixed table, its path
  is the workspace root joined with the trimmed rest of the line. Lines shorter than two
  characters give nothing. A failed command or a blank output gives the empty list. Any
  code outside the table, the empty one included, is \<open>Unknown\<close>.
\<close>

theorem gatherChanges_postcondition:
  "fst (gatherChanges h svc staged) =
     Inr (case fst (getStatus h svc staged) of
            Inl e \<Rightarrow> []
          | Inr out \<Rightarrow>
              if trim out = [] then []
              else map (\<lambda>line. \<lparr>filePath = path_join h (workspaceRoot svc) (trim (drop 1 line)),
                                  status = getChangeStatusFromCode (trim (take 1 line))\<rparr>)
                     (filter (\<lambda>line. 2 \<le> length line)
                        (filter (\<lambda>line. trim line \<noteq> []) (splitOn NL out)))) \<and>
   getChangeStatusFromCode ''M'' = ''Modified'' \<and>
   getChangeStatusFromCode ''A'' = ''Added'' \<and>
   getChangeStatusFromCode ''D'' = ''Deleted'' \<and>
   getChangeStatusFromCode ''R'' = ''Renamed'' \<and>
   getChangeStatusFromCode ''C'' = ''Copied'' \<and>
   getChangeStatusFromCode ''U'' = ''Updated'' \<and>
   getChangeStatusFromCode ''?'' = ''Untracked'' \<and>
   (code \<notin> set [''M'', ''A'', ''D'', ''R'', ''C'', ''U'', ''?''] \<longrightarrow>
      getChangeStatusFromCode code = ''Unknown'')"
proof -
  have g: "fst (gatherChanges h svc staged) =
     Inr (case fst (getStatus h svc staged) of
            Inl e \<Rightarrow> []
          | Inr out \<Rightarrow>
              if trim out = [] then []
              else map (\<lambda>line. \<lparr>filePath = path_join h (workspaceRoot svc) (trim (drop 1 line)),
                                  status = getChangeStatusFromCode (trim (take 1 line))\<rparr>)
                     (filter (\<lambda>line. 2 \<le> length line)
                        (filter (\<lambda>line. trim line \<noteq> []) (splitOn NL out))))"
  proof (cases "getStatus h svc staged")
    case (Pair r ev)
    then show ?thesis
      by (cases r) (simp_all add: gatherChanges_def parseStatusLines_eq)
  qed
  have t: "getChangeStatusFromCode ''M'' = ''Modified'' \<and>
   getChangeStatusFromCode ''A'' = ''Added'' \<and>
   getChangeStatusFromCode ''D'' = ''Deleted'' \<and>
   getChangeStatusFromCode ''R'' = ''Renamed'' \<and>
   getChangeStatusFromCode ''C'' = ''Copied'' \<and>
   getChangeStatusFromCode ''U'' = ''Updated'' \<and>
   getChangeStatusFromCode ''?'' = ''Untracked''"
    by (simp add: getChangeStatusFromCode_def)
  have u: "code \<notin> set [''M'', ''A'', ''D'', ''R'', ''C'', ''U'', ''?''] \<longrightarrow>
      getChangeStatusFromCode code = ''Unknown''"
    by (simp add: getChangeStatusFromCode_def)
  from g t u show ?thesis by blast
qed

theorem gatherChanges_postcondition_witness:
  "''x'' \<notin> set [''M'', ''A'', ''D'', ''R'', ''C'', ''U'', ''?''] \<and>
   getChangeStatusFromCode ''x'' = ''Unknown'' \<and>
   fst (getStatus exampleGit exampleService True) =
     Inr (''M file1.ts'' @ [NL] @ ''A file2.ts'' @ [NL]) \<and>
   fst (gatherChanges exampleGit exampleService True) =
     Inr [\<lparr>filePath = ''/repo/file1.ts'', status = ''Modified''\<rparr>,
          \<lparr>filePath = ''/repo/file2.ts'', status = ''Added''\<rparr>]"
proof -
  have h: "''x'' \<notin> set [''M'', ''A'', ''D'', ''R'', ''C'', ''U'', ''?'']" by simp
  have s: "fst (getStatus exampleGit exampleService True) =
     Inr (''M file1.ts'' @ [NL] @ ''A file2.ts'' @ [NL])" by code_simp
  have e: "(case fst (getStatus exampleGit exampleService True) of
            Inl e \<Rightarrow> []
          | Inr out \<Rightarrow>
              if trim out = [] then []
              else map (\<lambda>line. \<lparr>filePath = path_join exampleGit (workspaceRoot exampleService) (trim (drop 1 line)),
                                  status = getChangeStatusFromCode (trim (take 1 line))\<rparr>)
                     (filter (\<lambda>line. 2 \<le> length line)
                        (filter (\<lambda>line. trim line \<noteq> []) (splitOn NL out)))) =
       [\<lparr>filePath = ''/repo/file1.ts'', status = ''Modified''\<rparr>,
          \<lparr>filePath = ''/repo/file2.ts'', status = ''Added''\<rparr>]"
    by code_simp
  from gatherChanges_postcondition [of exampleGit exampleService True "''x''"] h s e
  show ?thesis by (simp only: simp_thms)
qed

subsection \<open>Building the context document\<close>







text \<open>
  C8. When the evaluator throws for a file, the access check logs a warning and answers
  "allowed"; unless the file is a lock file its diff is fetched and, the command
  succeeding, appended to the diffs. For the assembled diff and for the whole document an
  evaluator that throws is the same as one that answers "allowed".
\<close>

theorem validateAccess_fail_open:
  "(ignoreController svc = Some ctl \<longrightarrow>
    validateAccess h (controllerRoot ctl)
      (path_relative h (workspaceRoot svc) (path_join h (workspaceRoot svc) path)) = Inl e \<longrightarrow>
      validateFile h svc path =
        (True, [ConsoleWarn (''Error validating file access for '' @ path @
                  '', allowing access:'')]) \<and>
      (\<not> shouldExcludeLockFile h path \<longrightarrow>
       fst (getGitDiff h svc path staged) = Inr diff \<longrightarrow>
       fst (reportProgress onProgress (k + 1) n) = None \<longrightarrow>
         fst (processFiles h svc staged onProgress n (path # files) diffs k) =
         fst (processFiles h svc staged onProgress n files (diffs @ [trim diff]) (k + 1)))) \<and>
   fst (getDiffForChanges h svc staged onProgress) =
     fst (getDiffForChanges (allowOnError h) svc staged onProgress) \<and>
   fst (getCommitContext h svc changes staged onProgress) =
     fst (getCommitContext (allowOnError h) svc changes staged onProgress)"
proof (intro conjI impI)
  assume c: "ignoreController svc = Some ctl"
    and v: "validateAccess h (controllerRoot ctl)
      (path_relative h (workspaceRoot svc) (path_join h (workspaceRoot svc) path)) = Inl e"
  show vf: "validateFile h svc path =
        (True, [ConsoleWarn (''Error validating file access for '' @ path @
                  '', allowing access:'')])"
    by (simp add: validateFile_def c v)
  assume "\<not> shouldExcludeLockFile h path"
    and "fst (getGitDiff h svc path staged) = Inr diff"
    and "fst (reportProgress onProgress (k + 1) n) = None"
  then show "fst (processFiles h svc staged onProgress n (path # files) diffs k) =
         fst (processFiles h svc staged onProgress n files (diffs @ [trim diff]) (k + 1))"
    by (simp add: fst_processFiles_Cons vf del: processFiles.simps)
next
  show d: "fst (getDiffForChanges h svc staged onProgress) =
     fst (getDiffForChanges (allowOnError h) svc staged onProgress)"
    by (simp add: fst_getDiffForChanges processFiles_allowOnError cong: sum.case_cong)
  show "fst (getCommitContext h svc changes staged onProgress) =
     fst (getCommitContext (allowOnError h) svc changes staged onProgress)"
    by (simp add: fst_getCommitContext d getSummary_def getCurrentBranch_def
          getRecentCommits_def)
qed

theorem validateAccess_fail_open_witness:
  "ignoreController exampleService = Some (RooIgnoreController ''/repo'') \<and>
   validateAccess exampleGit (controllerRoot (RooIgnoreController ''/repo''))
      (path_relative exampleGit (workspaceRoot exampleService)
         (path_join exampleGit (workspaceRoot exampleService) ''file1.ts'')) =
     Inl (Error ''cannot read ignore file'') \<and>
   validateFile exampleGit exampleService ''file1.ts'' =
     (True, [ConsoleWarn (''Error validating file access for '' @ ''file1.ts'' @
               '', allowing access:'')]) \<and>
   \<not> shouldExcludeLockFile exampleGit ''file1.ts'' \<and>
   fst (getGitDiff exampleGit exampleService ''file1.ts'' True) = Inr (''+one'' @ [NL]) \<and>
   fst (reportProgress None (0 + 1) 2) = None \<and>
   fst (processFiles exampleGit exampleService True None 2 [''file1.ts'', ''file2.ts''] [] 0) =
     fst (processFiles exampleGit exampleService True None 2 [''file2.ts''] ([] @ [trim (''+one'' @ [NL])]) (0 + 1)) \<and>
   fst (getDiffForChanges exampleGit exampleService True None) = Inr (''+one'' @ [NL] @ ''+two'')"
proof -
  have h1: "ignoreController exampleService = Some (RooIgnoreController ''/repo'')"
    by code_simp
  have h2: "validateAccess exampleGit (controllerRoot (RooIgnoreController ''/repo''))
      (path_relative exampleGit (workspaceRoot exampleService)
         (path_join exampleGit (workspaceRoot exampleService) ''file1.ts'')) =
     Inl (Error ''cannot read ignore file'')" by code_simp
  have h3: "\<not> shouldExcludeLockFile exampleGit ''file1.ts''" by code_simp
  have h4: "fst (getGitDiff exampleGit exampleService ''file1.ts'' True) = Inr (''+one'' @ [NL])"
    by code_simp
  have h5: "fst (reportProgress None (0 + 1) 2) = None" by code_simp
  have h6: "fst (getDiffForChanges exampleGit exampleService True None) =
    Inr (''+one'' @ [NL] @ ''+two'')" by code_simp
  from validateAccess_fail_open
         [of exampleService "RooIgnoreController ''/repo''" exampleGit "''file1.ts''"
             "Error ''cannot read ignore file''" True "''+one'' @ [NL]" None 0 2
             "[''file2.ts'']" "[]" "[]"]
       h1 h2 h3 h4 h5 h6
  show ?thesis by blast
qed

subsection \<open>The orchestrator\<close>





text \<open>
  C9. After any sequence of requests the service held, if any, is the one constructed for
  the current workspace root, with its own evaluator. A request for another root disposes
  the old service's evaluator first, constructs a service for the new root next, and only
  then gathers changes; a request for the current root leaves the state as it is.
\<close>

theorem workspace_root_binding:
  "boundToRoot (handleAll ph requests newCommitMessageProvider) \<and>
   (currentWorkspaceRoot st \<noteq> Some p \<longrightarrow>
      gitService (fst (snd (gatherGitChanges h st p))) =
        Some \<lparr>workspaceRoot = p, ignoreController = Some (RooIgnoreController p)\<rparr> \<and>
      currentWorkspaceRoot (fst (snd (gatherGitChanges h st p))) = Some p \<and>
      snd (snd (gatherGitChanges h st p)) =
        (case gitService st of None \<Rightarrow> [] | Some old \<Rightarrow> disposeService old) @
        [IgnoreControllerCreated p] @
        snd (gatherChanges h \<lparr>workspaceRoot = p, ignoreController = Some (RooIgnoreController p)\<rparr> True) @
        (if fst (gatherChanges h \<lparr>workspaceRoot = p, ignoreController = Some (RooIgnoreController p)\<rparr> True) = Inr []
         then snd (gatherChanges h \<lparr>workspaceRoot = p, ignoreController = Some (RooIgnoreController p)\<rparr> False)
         else [])) \<and>
   (currentWorkspaceRoot st = Some p \<longrightarrow> fst (snd (gatherGitChanges h st p)) = st) \<and>
   (boundToRoot st \<longrightarrow> gitService st = Some old \<longrightarrow>
      currentWorkspaceRoot st = Some (workspaceRoot old) \<and>
      disposeService old = [IgnoreControllerDisposed (workspaceRoot old)])"
proof (intro conjI impI)
  show "boundToRoot (handleAll ph requests newCommitMessageProvider)"
    by (rule handleAll_boundToRoot) (simp add: boundToRoot_def newCommitMessageProvider_def)
next
  let ?new = "\<lparr>workspaceRoot = p, ignoreController = Some (RooIgnoreController p)\<rparr>"
  assume d: "currentWorkspaceRoot st \<noteq> Some p"
  then show s: "gitService (fst (snd (gatherGitChanges h st p))) = Some ?new"
    by (simp add: gatherGitChanges_state newGitExtensionService_def)
  from d show "currentWorkspaceRoot (fst (snd (gatherGitChanges h st p))) = Some p"
    by (simp add: gatherGitChanges_state)
  obtain c1 where c1: "fst (gatherChanges h ?new True) = Inr c1"
    using gatherChanges_Inr by blast
  obtain c2 where c2: "fst (gatherChanges h ?new False) = Inr c2"
    using gatherChanges_Inr by blast
  show "snd (snd (gatherGitChanges h st p)) =
        (case gitService st of None \<Rightarrow> [] | Some old \<Rightarrow> disposeService old) @
        [IgnoreControllerCreated p] @
        snd (gatherChanges h ?new True) @
        (if fst (gatherChanges h ?new True) = Inr []
         then snd (gatherChanges h ?new False)
         else [])"
    by (subst gatherGitChanges_bound [OF s]) (simp add: Let_def d c1 c2)
next
  assume "currentWorkspaceRoot st = Some p"
  then show "fst (snd (gatherGitChanges h st p)) = st"
    by (simp add: gatherGitChanges_state)
next
  assume b: "boundToRoot st" and o: "gitService st = Some old"
  then show "currentWorkspaceRoot st = Some (workspaceRoot old)"
    by (simp add: boundToRoot_def)
  from b o show "disposeService old = [IgnoreControllerDisposed (workspaceRoot old)]"
    by (simp add: boundToRoot_def disposeService_def)
qed

theorem workspace_root_binding_witness:
  "boundToRoot (handleAll exampleHost [ForExternal ''/repo''] newCommitMessageProvider) \<and>
   handleAll exampleHost [ForExternal ''/repo''] newCommitMessageProvider = afterFirstRun \<and>
   gitService afterFirstRun = Some exampleService \<and>
   currentWorkspaceRoot afterFirstRun \<noteq> Some ''/other'' \<and>
   gitService (fst (snd (gatherGitChanges exampleGit afterFirstRun ''/other''))) =
     Some \<lparr>workspaceRoot = ''/other'', ignoreController = Some (RooIgnoreController ''/other'')\<rparr> \<and>
   take 2 (snd (snd (gatherGitChanges exampleGit afterFirstRun ''/other''))) =
     [IgnoreControllerDisposed ''/repo'', IgnoreControllerCreated ''/other'']"
proof -
  have h1: "handleAll exampleHost [ForExternal ''/repo''] newCommitMessageProvider = afterFirstRun"
    by (simp add: afterFirstRun_def)
  have h2: "gitService afterFirstRun = Some exampleService" by code_simp
  have h3: "currentWorkspaceRoot afterFirstRun \<noteq> Some ''/other''" by code_simp
  have h4: "workspaceRoot exampleService = ''/repo''" by code_simp
  note t = workspace_root_binding
             [of exampleHost "[ForExternal ''/repo'']" afterFirstRun "''/other''" exampleGit
                 exampleService]
  from t h1 have b: "boundToRoot afterFirstRun" by simp
  from t b h2 h4 have d: "disposeService exampleService = [IgnoreControllerDisposed ''/repo'']"
    by simp
  from t h3 have g: "gitService (fst (snd (gatherGitChanges exampleGit afterFirstRun ''/other''))) =
     Some \<lparr>workspaceRoot = ''/other'', ignoreController = Some (RooIgnoreController ''/other'')\<rparr>"
    by blast
  from t h3 have "\<exists>rest. snd (snd (gatherGitChanges exampleGit afterFirstRun ''/other'')) =
        (case gitService afterFirstRun of None \<Rightarrow> [] | Some old \<Rightarrow> disposeService old) @
        [IgnoreControllerCreated ''/other''] @ rest"
    by blast
  then have e: "take 2 (snd (snd (gatherGitChanges exampleGit afterFirstRun ''/other''))) =
     [IgnoreControllerDisposed ''/repo'', IgnoreControllerCreated ''/other'']"
    using h2 d by auto
  from t h1 h2 h3 g e show ?thesis by simp
qed



end
